theory Spec2Isabelle
  imports Main
begin

section \<open>JavaScript values and objects used by server.js\<close>

text \<open>
  Strings are \<^typ>\<open>string\<close>. A value that JavaScript reads as \<open>string | undefined\<close>
  (an environment variable, a request header) is a \<^typ>\<open>string option\<close>, with
  \<open>None\<close> for \<open>undefined\<close>. The test \<open>!x\<close> on such a value holds for
  \<open>undefined\<close> and for the empty string.
\<close>

definition falsy :: "string option \<Rightarrow> bool" where
  "falsy x = (case x of None \<Rightarrow> True | Some s \<Rightarrow> s = [])"

text \<open>
  The own properties of a plain object, in the order in which \<open>Object.values\<close> and
  \<open>JSON.stringify\<close> enumerate them: keys that are array indices (canonical decimal
  numerals below \<open>2^32 - 1\<close>) first, ascending, then every other key in order of
  creation. Assigning to a key that exists keeps its position.
\<close>

type_synonym 'v props = "(string \<times> 'v) list"

definition is_digit :: "char \<Rightarrow> bool" where
  "is_digit c = (48 \<le> (of_char c :: nat) \<and> (of_char c :: nat) \<le> 57)"

definition digit_val :: "char \<Rightarrow> nat" where
  "digit_val c = of_char c - 48"

definition array_index :: "string \<Rightarrow> nat option" where
  "array_index s =
     (if s = [] then None
      else if \<not> list_all is_digit s then None
      else if hd s = CHR ''0'' \<and> 1 < length s then None
      else (let n = foldl (\<lambda>a c. 10 * a + digit_val c) 0 s
            in if n < 4294967295 then Some n else None))"

fun insert_index :: "nat \<Rightarrow> string \<Rightarrow> 'v \<Rightarrow> 'v props \<Rightarrow> 'v props" where
  "insert_index n k v [] = [(k, v)]"
| "insert_index n k v ((k', v') # ps) =
     (case array_index k' of
        Some m \<Rightarrow> if m < n then (k', v') # insert_index n k v ps
                  else (k, v) # (k', v') # ps
      | None \<Rightarrow> (k, v) # (k', v') # ps)"

fun overwrite :: "string \<Rightarrow> 'v \<Rightarrow> 'v props \<Rightarrow> 'v props" where
  "overwrite k v [] = []"
| "overwrite k v ((k', v') # ps) =
     (if k' = k then (k', v) # ps else (k', v') # overwrite k v ps)"

definition prop_set :: "string \<Rightarrow> 'v \<Rightarrow> 'v props \<Rightarrow> 'v props" where
  "prop_set k v ps =
     (case map_of ps k of
        Some _ \<Rightarrow> overwrite k v ps
      | None \<Rightarrow> (case array_index k of
                   Some n \<Rightarrow> insert_index n k v ps
                 | None \<Rightarrow> ps @ [(k, v)]))"

section \<open>The client registry object\<close>

record client =
  name :: string
  secret :: string
  assetDir :: string

text \<open>
  \<open>const clients = {}\<close> is a plain object whose prototype is \<open>Object.prototype\<close>.
  The assignment \<open>clients[id] = {...}\<close> creates or overwrites an own property, except
  for the key \<open>__proto__\<close>: that one is an accessor of \<open>Object.prototype\<close>, and
  assigning an object to it replaces the prototype of \<open>clients\<close> instead of storing a
  property. \<open>proto\<close> is \<open>None\<close> while the prototype is still \<open>Object.prototype\<close>.
\<close>

record clients_obj =
  own :: "client props"
  proto :: "client option"

definition empty_clients :: clients_obj where
  "empty_clients = \<lparr>own = [], proto = None\<rparr>"

definition clients_set :: "string \<Rightarrow> client \<Rightarrow> clients_obj \<Rightarrow> clients_obj" where
  "clients_set k c obj =
     (if k = ''__proto__'' then obj\<lparr>proto := Some c\<rparr>
      else obj\<lparr>own := prop_set k c (own obj)\<rparr>)"

text \<open>
  What \<open>CLIENTS[k]\<close> evaluates to. Besides \<open>undefined\<close> and a client record it can
  be an inherited value: a method of \<open>Object.prototype\<close>, \<open>Object.prototype\<close> itself
  (key \<open>__proto__\<close>), or a string field of a client record that has become the
  prototype. All of these are lumped into \<open>Inherited\<close>: they are not \<open>undefined\<close>,
  and reading \<open>.secret\<close> from them gives \<open>undefined\<close>.
\<close>

datatype jsval = Undefined | Client_obj client | Inherited

definition object_prototype_keys :: "string list" where
  "object_prototype_keys =
     [''constructor'', ''__defineGetter__'', ''__defineSetter__'', ''hasOwnProperty'',
      ''__lookupGetter__'', ''__lookupSetter__'', ''isPrototypeOf'',
      ''propertyIsEnumerable'', ''toString'', ''valueOf'', ''toLocaleString'']"

definition client_fields :: "string list" where
  "client_fields = [''name'', ''secret'', ''assetDir'']"

definition clients_get :: "clients_obj \<Rightarrow> string \<Rightarrow> jsval" where
  "clients_get obj k =
     (case map_of (own obj) k of
        Some c \<Rightarrow> Client_obj c
      | None \<Rightarrow>
          if k = ''__proto__'' then
            (case proto obj of Some p \<Rightarrow> Client_obj p | None \<Rightarrow> Inherited)
          else if k \<in> set object_prototype_keys then Inherited
          else (case proto obj of
                  Some p \<Rightarrow> if k \<in> set client_fields then Inherited else Undefined
                | None \<Rightarrow> Undefined))"

definition object_values :: "clients_obj \<Rightarrow> client list" where
  "object_values obj = map snd (own obj)"

section \<open>Requests and responses\<close>

text \<open>
  The fields of an Express request that server.js and its libraries read
  (\<open>http_method\<close> is \<open>req.method\<close>). \<open>headers\<close> is keyed by the lower-cased
  header name, as Node stores it. \<open>route\<close> is the mounted pattern that the Express
  router matches the URL against, \<open>params_client\<close> the \<open>:client\<close> segment it
  extracts, and \<open>url\<close> the path of the URL as the handler sees it: for a handler
  mounted with \<open>app.use\<close>, the part after the mount point. \<open>client\<close> is
  \<open>req.client\<close>, unset until authentication attaches it.
\<close>

datatype route = ApiAssets | AssetsClient | Health | Unrouted

record request =
  http_method :: string
  headers :: "string \<rightharpoonup> string"
  protocol :: string
  route :: route
  params_client :: string
  url :: string
  client :: "client option"

datatype body = NoBody | Text string | Json "string props" | Bytes string

record res =
  status :: nat
  header_list :: "string props"
  body :: body

text \<open>A middleware either sends the response or calls \<open>next()\<close>.\<close>

datatype outcome = Sent res | Next request res

definition fresh_res :: res where
  "fresh_res = \<lparr>status = 200, header_list = [], body = NoBody\<rparr>"

definition setHeader :: "string \<Rightarrow> string \<Rightarrow> res \<Rightarrow> res" where
  "setHeader k v r =
     r\<lparr>header_list := (case map_of (header_list r) k of
                          Some _ \<Rightarrow> overwrite k v (header_list r)
                        | None \<Rightarrow> header_list r @ [(k, v)])\<rparr>"

definition send_json :: "string props \<Rightarrow> res \<Rightarrow> res" where
  "send_json obj r = r\<lparr>body := Json obj\<rparr>"

text \<open>
  \<open>res.sendStatus(code)\<close> sets the status and sends the standard reason phrase as
  text; Express drops the body of a 204 or 304. Only 204 and 404 occur in server.js.
\<close>

definition reason_phrase :: "nat \<Rightarrow> string" where
  "reason_phrase code =
     (if code = 404 then ''Not Found'' else if code = 204 then ''No Content'' else [])"

definition sendStatus :: "nat \<Rightarrow> res \<Rightarrow> res" where
  "sendStatus code r =
     r\<lparr>status := code,
       body := (if code = 204 \<or> code = 304 then NoBody else Text (reason_phrase code))\<rparr>"

section \<open>Authentication middleware\<close>

definition authenticateClient :: "clients_obj \<Rightarrow> request \<Rightarrow> res \<Rightarrow> outcome" where
  "authenticateClient CLIENTS req r =
     (let clientId = headers req ''x-client-id'';
          clientSecret = headers req ''x-client-secret''
      in if falsy clientId \<or> falsy clientSecret then
           Sent (send_json [(''error'', ''Missing authentication headers'')]
                   (r\<lparr>status := 401\<rparr>))
         else
           (case (clientId, clientSecret) of
              (Some cid, Some csecret) \<Rightarrow>
                (case clients_get CLIENTS cid of
                   Client_obj c \<Rightarrow>
                     if secret c \<noteq> csecret then
                       Sent (send_json [(''error'', ''Invalid client credentials'')]
                               (r\<lparr>status := 403\<rparr>))
                     else Next (req\<lparr>client := Some c\<rparr>) r
                 | _ \<Rightarrow>
                     Sent (send_json [(''error'', ''Invalid client credentials'')]
                             (r\<lparr>status := 403\<rparr>)))
            | _ \<Rightarrow>
                Sent (send_json [(''error'', ''Missing authentication headers'')]
                        (r\<lparr>status := 401\<rparr>))))"

section \<open>Configuration: splitting lists, loading the registry\<close>

text \<open>
  \<open>s.split(",").map(x => x.trim()).filter(Boolean)\<close>: the string is cut at every
  comma, each piece is trimmed, and \<open>filter(Boolean)\<close> drops the empty strings.
  \<open>x || d\<close> is \<open>or_default x d\<close>. A string holding characters beyond ASCII is taken
  as its UTF-8 bytes; the comma, the slash, the dot and the backslash never occur inside
  the encoding of another character.
\<close>

fun split_on :: "char \<Rightarrow> string \<Rightarrow> string \<Rightarrow> string list" where
  "split_on d acc [] = [rev acc]"
| "split_on d acc (c # cs) =
     (if c = d then rev acc # split_on d [] cs else split_on d (c # acc) cs)"

definition comma_list :: "(string \<Rightarrow> string) \<Rightarrow> string \<Rightarrow> string list" where
  "comma_list trim_fn s = filter (\<lambda>x. x \<noteq> []) (map trim_fn (split_on (CHR '','') [] s))"

definition or_default :: "string option \<Rightarrow> string \<Rightarrow> string" where
  "or_default x d = (case x of None \<Rightarrow> d | Some s \<Rightarrow> if s = [] then d else s)"

text \<open>
  The Node runtime the module is loaded in: \<open>process.env\<close> after \<open>dotenv.config()\<close>;
  the functions \<open>path.resolve\<close> and \<open>path.join\<close>, which belong to the platform;
  and the string methods \<open>toUpperCase\<close> and \<open>trim\<close>, which follow the Unicode
  tables of the JavaScript engine. All of them are parameters here.
\<close>

record runtime =
  env :: "string \<rightharpoonup> string"
  toUpperCase :: "string \<Rightarrow> string"
  trim :: "string \<Rightarrow> string"
  path_resolve :: "string \<Rightarrow> string"
  path_join :: "string \<Rightarrow> string \<Rightarrow> string"

definition ASSETS_ROOT :: "runtime \<Rightarrow> string" where
  "ASSETS_ROOT rt = path_resolve rt (or_default (env rt ''ASSETS_ROOT'') ''assets'')"

definition PORT :: "runtime \<Rightarrow> string" where
  "PORT rt = or_default (env rt ''PORT'') ''4000''"

definition ALLOWED_ORIGINS :: "runtime \<Rightarrow> string list" where
  "ALLOWED_ORIGINS rt = comma_list (trim rt) (or_default (env rt ''CORS_ORIGINS'') [])"

text \<open>\<open>throw new Error(`Missing credentials for client ${name}`)\<close>\<close>

datatype config_error = ConfigurationError string

definition id_var :: "runtime \<Rightarrow> string \<Rightarrow> string" where
  "id_var rt nm = toUpperCase rt nm @ ''_ID''"

definition secret_var :: "runtime \<Rightarrow> string \<Rightarrow> string" where
  "secret_var rt nm = toUpperCase rt nm @ ''_SECRET''"

fun load_loop :: "runtime \<Rightarrow> string list \<Rightarrow> clients_obj \<Rightarrow> config_error + clients_obj" where
  "load_loop rt [] clients = Inr clients"
| "load_loop rt (nm # list) clients =
     (let id = env rt (id_var rt nm); secret' = env rt (secret_var rt nm)
      in if falsy id \<or> falsy secret' then
           Inl (ConfigurationError (''Missing credentials for client '' @ nm))
         else
           load_loop rt list
             (clients_set (the id)
                \<lparr>name = nm, secret = the secret',
                 assetDir = path_join rt (ASSETS_ROOT rt) nm\<rparr>
                clients))"

definition client_list :: "runtime \<Rightarrow> string list" where
  "client_list rt = comma_list (trim rt) (or_default (env rt ''CLIENTS'') [])"

definition loadClients :: "runtime \<Rightarrow> config_error + clients_obj" where
  "loadClients rt = load_loop rt (client_list rt) empty_clients"

text \<open>
  Loading the module: \<open>const CLIENTS = loadClients()\<close> runs at top level, before
  \<open>app.listen\<close>. When it throws, the module never reaches \<open>app.listen\<close> and no
  server exists.
\<close>

record server =
  CLIENTS :: clients_obj
  allowed_origins :: "string list"
  assets_root :: string
  port :: string

definition startup :: "runtime \<Rightarrow> config_error + server" where
  "startup rt =
     (case loadClients rt of
        Inl e \<Rightarrow> Inl e
      | Inr cs \<Rightarrow> Inr \<lparr>CLIENTS = cs, allowed_origins = ALLOWED_ORIGINS rt,
                       assets_root = ASSETS_ROOT rt, port = PORT rt\<rparr>)"

section \<open>The asset index\<close>

text \<open>
  What \<open>fs.readdirSync(dir, {withFileTypes: true})\<close> finds: a directory is the list
  of its entries in directory order. \<open>Unreadable\<close> is a directory whose listing
  fails, \<open>Special\<close> any entry that is neither a regular file nor a directory
  (a symbolic link, a socket, a FIFO); \<open>isDirectory()\<close> is false for it.
\<close>

datatype node = File string | Dir "(string \<times> node) list" | Unreadable | Special

datatype fs_error = ENOENT | ENOTDIR | EACCES

definition backslash :: char where
  "backslash = CHR 0x5C"

text \<open>\<open>.replace(/\\/g, "/")\<close>: every backslash becomes a slash.\<close>

definition replace_backslashes :: "string \<Rightarrow> string" where
  "replace_backslashes s = map (\<lambda>c. if c = backslash then CHR ''/'' else c) s"

text \<open>
  \<open>.replace(/\.[^/.]+$/, "")\<close>: the leftmost position holding a dot that is followed,
  up to the end of the string, by one or more characters other than slash and dot; the
  string is cut there. Without such a position the string is unchanged.
\<close>

fun strip_ext :: "string \<Rightarrow> string" where
  "strip_ext [] = []"
| "strip_ext (c # cs) =
     (if c = CHR ''.'' \<and> cs \<noteq> [] \<and> list_all (\<lambda>d. d \<noteq> CHR ''/'' \<and> d \<noteq> CHR ''.'') cs
      then [] else c # strip_ext cs)"

text \<open>
  \<open>path.relative(dirPath, fullPath)\<close>, where \<open>fullPath\<close> was built from \<open>dirPath\<close>
  by one \<open>path.join(currentDir, entry.name)\<close> per directory level: the entry names
  below \<open>dirPath\<close>, joined by \<open>path.sep\<close>. The walk carries these names, and
  \<open>path.sep\<close> is the parameter \<open>sp\<close>: a slash on POSIX, a backslash on Windows.
\<close>

fun join_with :: "char \<Rightarrow> string list \<Rightarrow> string" where
  "join_with sp [] = []"
| "join_with sp [x] = x"
| "join_with sp (x # y # ys) = x @ sp # join_with sp (y # ys)"

definition baseUrl :: "request \<Rightarrow> string" where
  "baseUrl req =
     protocol req @ ''://'' @ (case headers req ''host'' of None \<Rightarrow> ''undefined'' | Some h \<Rightarrow> h)"

definition relativeKey :: "char \<Rightarrow> string list \<Rightarrow> string" where
  "relativeKey sp segs = strip_ext (replace_backslashes (join_with sp segs))"

definition asset_url :: "char \<Rightarrow> request \<Rightarrow> string \<Rightarrow> string list \<Rightarrow> string" where
  "asset_url sp req clientName segs =
     baseUrl req @ ''/assets/'' @ clientName @ ''/'' @ replace_backslashes (join_with sp segs)"

text \<open>
  \<open>result[relativeKey] = url\<close> on the plain object \<open>result\<close>. The value is a string,
  and assigning a string to \<open>__proto__\<close> stores nothing.
\<close>

definition result_set :: "string \<Rightarrow> string \<Rightarrow> string props \<Rightarrow> string props" where
  "result_set k v ps = (if k = ''__proto__'' then ps else prop_set k v ps)"

function walk :: "char \<Rightarrow> request \<Rightarrow> string \<Rightarrow> string list \<Rightarrow> (string \<times> node) list
                   \<Rightarrow> string props \<Rightarrow> fs_error + string props" where
  "walk sp req clientName currentDir [] result = Inr result"
| "walk sp req clientName currentDir ((nm, Dir children) # entries) result =
     (case walk sp req clientName (currentDir @ [nm]) children result of
        Inl e \<Rightarrow> Inl e
      | Inr result' \<Rightarrow> walk sp req clientName currentDir entries result')"
| "walk sp req clientName currentDir ((nm, Unreadable) # entries) result = Inl EACCES"
| "walk sp req clientName currentDir ((nm, File bytes) # entries) result =
     walk sp req clientName currentDir entries
       (result_set (relativeKey sp (currentDir @ [nm]))
          (asset_url sp req clientName (currentDir @ [nm])) result)"
| "walk sp req clientName currentDir ((nm, Special) # entries) result =
     walk sp req clientName currentDir entries
       (result_set (relativeKey sp (currentDir @ [nm]))
          (asset_url sp req clientName (currentDir @ [nm])) result)"
  by pat_completeness auto
termination
  by (relation "measure (\<lambda>(sp, req, clientName, currentDir, entries, result).
                  size_list (size_prod (\<lambda>_. 0) size) entries)") auto

definition buildAssetIndex ::
  "(string \<Rightarrow> node option) \<Rightarrow> char \<Rightarrow> request \<Rightarrow> string \<Rightarrow> string
     \<Rightarrow> fs_error + string props" where
  "buildAssetIndex disk sp req clientName dirPath =
     (case disk dirPath of
        None \<Rightarrow> Inl ENOENT
      | Some (Dir entries) \<Rightarrow> walk sp req clientName [] entries []
      | Some Unreadable \<Rightarrow> Inl EACCES
      | Some _ \<Rightarrow> Inl ENOTDIR)"

section \<open>Routes\<close>

text \<open>
  An exception thrown inside a handler reaches the default error handler of Express,
  which answers 500.
\<close>

definition server_error :: "res \<Rightarrow> res" where
  "server_error r = r\<lparr>status := 500, body := Text ''Internal Server Error''\<rparr>"

definition existsSync :: "(string \<Rightarrow> node option) \<Rightarrow> string \<Rightarrow> bool" where
  "existsSync disk p = (disk p \<noteq> None)"

definition api_assets_handler ::
  "(string \<Rightarrow> node option) \<Rightarrow> char \<Rightarrow> request \<Rightarrow> res \<Rightarrow> res" where
  "api_assets_handler disk sp req r =
     (case client req of
        None \<Rightarrow> server_error r
      | Some c \<Rightarrow>
          if \<not> existsSync disk (assetDir c) then send_json [] r
          else (case buildAssetIndex disk sp req (name c) (assetDir c) of
                  Inl e \<Rightarrow> server_error r
                | Inr assets \<Rightarrow> send_json assets r))"

text \<open>\<open>app.get("/api/assets", authenticateClient, handler)\<close>\<close>

definition api_assets_route ::
  "clients_obj \<Rightarrow> (string \<Rightarrow> node option) \<Rightarrow> char \<Rightarrow> request \<Rightarrow> res \<Rightarrow> res" where
  "api_assets_route clients disk sp req r =
     (case authenticateClient clients req r of
        Sent r' \<Rightarrow> r'
      | Next req' r' \<Rightarrow> api_assets_handler disk sp req' r')"

text \<open>
  \<open>app.use("/assets/:client", ...)\<close>. \<open>express.static\<close> is the file-serving
  library: given a root directory it yields a middleware. It is a parameter.
\<close>

type_synonym static_lib = "string \<Rightarrow> request \<Rightarrow> res \<Rightarrow> outcome"

definition assets_route :: "clients_obj \<Rightarrow> static_lib \<Rightarrow> request \<Rightarrow> res \<Rightarrow> outcome" where
  "assets_route clients express_static req r =
     (case find (\<lambda>c. name c = params_client req) (object_values clients) of
        None \<Rightarrow> Sent (sendStatus 404 r)
      | Some c \<Rightarrow> express_static (assetDir c) req r)"

definition health_route :: "res \<Rightarrow> res" where
  "health_route r = r\<lparr>body := Text ''OK''\<rparr>"

section \<open>The router and the file server\<close>






section \<open>CORS middleware\<close>

definition cors_permits :: "string list \<Rightarrow> request \<Rightarrow> bool" where
  "cors_permits allowed req =
     (case headers req ''origin'' of
        None \<Rightarrow> True
      | Some origin \<Rightarrow> origin = [] \<or> origin \<in> set allowed)"

definition cors :: "string list \<Rightarrow> request \<Rightarrow> res \<Rightarrow> outcome" where
  "cors allowed req r =
     (let r' = (if cors_permits allowed req then
                  setHeader ''Access-Control-Allow-Headers''
                    ''Content-Type, Authorization, x-client-id, x-client-secret''
                    (setHeader ''Access-Control-Allow-Methods'' ''GET,POST,OPTIONS''
                       (setHeader ''Access-Control-Allow-Credentials'' ''true''
                          (setHeader ''Access-Control-Allow-Origin''
                             (or_default (headers req ''origin'') ''*'') r)))
                else r)
      in if http_method req = ''OPTIONS'' then Sent (sendStatus 204 r') else Next req r')"

section \<open>The middleware chain\<close>

text \<open>
  The libraries mounted with \<open>app.use\<close>, as parameters: \<open>helmet\<close> sets headers and
  calls \<open>next()\<close>; \<open>express.json()\<close> and \<open>express.static\<close> answer or call
  \<open>next()\<close>; \<open>rateLimit\<close>, given the window length and the maximum, keeps a state
  of its own (the hit counters), of type \<open>'s\<close>.
\<close>

record 's libraries =
  helmet :: "res \<Rightarrow> res"
  express_json :: "request \<Rightarrow> res \<Rightarrow> outcome"
  rateLimit :: "nat \<Rightarrow> nat \<Rightarrow> 's \<Rightarrow> request \<Rightarrow> res \<Rightarrow> outcome \<times> 's"
  express_static :: static_lib

definition windowMs :: nat where
  "windowMs = 60 * 1000"

definition max_hits :: nat where
  "max_hits = 120"

definition not_found :: "res \<Rightarrow> res" where
  "not_found r = r\<lparr>status := 404, body := Text ''Not Found''\<rparr>"

definition routes ::
  "'s libraries \<Rightarrow> server \<Rightarrow> (string \<Rightarrow> node option) \<Rightarrow> char \<Rightarrow> request \<Rightarrow> res \<Rightarrow> res" where
  "routes lib srv disk sp req r =
     (case route req of
        ApiAssets \<Rightarrow> api_assets_route (CLIENTS srv) disk sp req r
      | AssetsClient \<Rightarrow>
          (case assets_route (CLIENTS srv) (express_static lib) req r of
             Sent r' \<Rightarrow> r'
           | Next req' r' \<Rightarrow> not_found r')
      | Health \<Rightarrow> health_route r
      | Unrouted \<Rightarrow> not_found r)"

definition app ::
  "'s libraries \<Rightarrow> server \<Rightarrow> (string \<Rightarrow> node option) \<Rightarrow> char \<Rightarrow> 's \<Rightarrow> request
     \<Rightarrow> res \<times> 's" where
  "app lib srv disk sp st req =
     (case cors (allowed_origins srv) req (helmet lib fresh_res) of
        Sent r \<Rightarrow> (r, st)
      | Next req1 r1 \<Rightarrow>
          (case express_json lib req1 r1 of
             Sent r \<Rightarrow> (r, st)
           | Next req2 r2 \<Rightarrow>
               (case rateLimit lib windowMs max_hits st req2 r2 of
                  (Sent r, st') \<Rightarrow> (r, st')
                | (Next req3 r3, st') \<Rightarrow> (routes lib srv disk sp req3 r3, st'))))"

section \<open>Responses and sample data named in the properties\<close>

definition unauthorized :: "res \<Rightarrow> res" where
  "unauthorized r =
     send_json [(''error'', ''Missing authentication headers'')] (r\<lparr>status := 401\<rparr>)"

definition forbidden :: "res \<Rightarrow> res" where
  "forbidden r =
     send_json [(''error'', ''Invalid client credentials'')] (r\<lparr>status := 403\<rparr>)"

text \<open>
  The scenario of the specification: client \<open>acme\<close> with id \<open>abc\<close> and secret
  \<open>xyz\<close>, and a request for the index carrying the given headers.
\<close>

definition acme :: client where
  "acme = \<lparr>name = ''acme'', secret = ''xyz'', assetDir = ''/srv/assets/acme''\<rparr>"

definition acme_clients :: clients_obj where
  "acme_clients = clients_set ''abc'' acme empty_clients"

definition api_request :: "(string \<rightharpoonup> string) \<Rightarrow> request" where
  "api_request hs =
     \<lparr>http_method = ''GET'', headers = hs, protocol = ''http'', route = ApiAssets,
      params_client = [], url = ''/api/assets'', client = None\<rparr>"

text \<open>The four headers that the CORS middleware sets when it permits the origin.\<close>

definition cors_headers :: "string \<Rightarrow> res \<Rightarrow> res" where
  "cors_headers origin r =
     setHeader ''Access-Control-Allow-Headers''
       ''Content-Type, Authorization, x-client-id, x-client-secret''
       (setHeader ''Access-Control-Allow-Methods'' ''GET,POST,OPTIONS''
          (setHeader ''Access-Control-Allow-Credentials'' ''true''
             (setHeader ''Access-Control-Allow-Origin'' origin r)))"

text \<open>
  A preflight from an origin outside the allow-list, one from an allowed origin, and
  libraries whose rate limiter counts every request it sees and refuses it with 429.
\<close>

definition preflight :: "string \<Rightarrow> request" where
  "preflight origin =
     \<lparr>http_method = ''OPTIONS'', headers = [''origin'' \<mapsto> origin],
      protocol = ''http'', route = ApiAssets, params_client = [], url = ''/api/assets'',
      client = None\<rparr>"

definition strict_libraries :: "nat libraries" where
  "strict_libraries =
     \<lparr>helmet = setHeader ''X-Content-Type-Options'' ''nosniff'',
      express_json = Next,
      rateLimit = (\<lambda>w m n req r.
                     (Sent (r\<lparr>status := 429, body := Text ''Too many requests''\<rparr>), Suc n)),
      express_static = (\<lambda>root req r. Sent (r\<lparr>body := Text root\<rparr>))\<rparr>"

definition acme_server :: server where
  "acme_server =
     \<lparr>CLIENTS = acme_clients, allowed_origins = [''https://app.example.com''],
      assets_root = ''/srv/assets'', port = ''4000''\<rparr>"

text \<open>
  A registry in which two records carry the same name, and a request to the static
  route for a given \<open>:client\<close> segment.
\<close>

definition twin_clients :: clients_obj where
  "twin_clients =
     \<lparr>own = [(''id1'', \<lparr>name = ''acme'', secret = ''s1'', assetDir = ''/srv/assets/first''\<rparr>),
             (''id2'', \<lparr>name = ''acme'', secret = ''s2'', assetDir = ''/srv/assets/second''\<rparr>)],
      proto = None\<rparr>"

definition static_request :: "string \<Rightarrow> request" where
  "static_request seg =
     \<lparr>http_method = ''GET'', headers = Map.empty, protocol = ''http'', route = AssetsClient,
      params_client = seg, url = ''/'', client = None\<rparr>"

text \<open>
  The scenario continued: the directory of \<open>acme\<close> holding \<open>logo.png\<close>, and the
  index request after authentication has attached the client.
\<close>

definition acme_disk :: "string \<Rightarrow> node option" where
  "acme_disk = [''/srv/assets/acme'' \<mapsto> Dir [(''logo.png'', File ''PNG-bytes'')]]"

definition acme_headers :: "string \<rightharpoonup> string" where
  "acme_headers =
     [''x-client-id'' \<mapsto> ''abc'', ''x-client-secret'' \<mapsto> ''xyz'', ''host'' \<mapsto> ''host'']"

definition authed_request :: request where
  "authed_request = (api_request acme_headers)\<lparr>client := Some acme\<rparr>"

text \<open>
  What \<open>toUpperCase\<close> and \<open>trim\<close> do on ASCII text, for the sample
  configurations: the letters \<open>a\<close> to \<open>z\<close> become capitals; tab, line feed,
  vertical tab, form feed, carriage return and space are removed from both ends.
\<close>

definition ascii_upper :: "string \<Rightarrow> string" where
  "ascii_upper s =
     map (\<lambda>c. if 97 \<le> (of_char c :: nat) \<and> (of_char c :: nat) \<le> 122
              then char_of (of_char c - 32 :: nat) else c) s"

definition is_space :: "char \<Rightarrow> bool" where
  "is_space c = ((9 \<le> (of_char c :: nat) \<and> (of_char c :: nat) \<le> 13) \<or> c = CHR '' '')"

definition ascii_trim :: "string \<Rightarrow> string" where
  "ascii_trim s = rev (dropWhile is_space (rev (dropWhile is_space s)))"

text \<open>
  Three configurations: the scenario's; one that lists a second client \<open>beta\<close>
  without a secret, in a list with blanks and empty items; and one in which the clients
  \<open>a\<close> and \<open>b\<close> are given the same id.
\<close>

definition acme_runtime :: runtime where
  "acme_runtime =
     \<lparr>env = [''CLIENTS'' \<mapsto> ''acme'', ''ACME_ID'' \<mapsto> ''abc'', ''ACME_SECRET'' \<mapsto> ''xyz'',
             ''ASSETS_ROOT'' \<mapsto> ''/srv/assets''],
      toUpperCase = ascii_upper, trim = ascii_trim,
      path_resolve = (\<lambda>p. p), path_join = (\<lambda>a b. a @ ''/'' @ b)\<rparr>"

definition broken_runtime :: runtime where
  "broken_runtime =
     \<lparr>env = [''CLIENTS'' \<mapsto> '' acme , beta,, '', ''ACME_ID'' \<mapsto> ''abc'',
             ''ACME_SECRET'' \<mapsto> ''xyz'', ''BETA_ID'' \<mapsto> ''b1''],
      toUpperCase = ascii_upper, trim = ascii_trim,
      path_resolve = (\<lambda>p. p), path_join = (\<lambda>a b. a @ ''/'' @ b)\<rparr>"

definition shared_runtime :: runtime where
  "shared_runtime =
     \<lparr>env = [''CLIENTS'' \<mapsto> ''a,b'', ''A_ID'' \<mapsto> ''x'', ''A_SECRET'' \<mapsto> ''sa'',
             ''B_ID'' \<mapsto> ''x'', ''B_SECRET'' \<mapsto> ''sb'', ''ASSETS_ROOT'' \<mapsto> ''/srv/assets''],
      toUpperCase = ascii_upper, trim = ascii_trim,
      path_resolve = (\<lambda>p. p), path_join = (\<lambda>a b. a @ ''/'' @ b)\<rparr>"

definition shared_clients :: clients_obj where
  "shared_clients =
     \<lparr>own = [(''x'', \<lparr>name = ''b'', secret = ''sb'', assetDir = ''/srv/assets/b''\<rparr>)],
      proto = None\<rparr>"

text \<open>
  A listed client lacks credentials when its id variable or its secret variable is
  unset or set to the empty string. A record stored under key \<open>k\<close> is well formed
  when it belongs to a listed name whose id variable holds \<open>k\<close>, carries that name's
  secret, and has \<open>ASSETS_ROOT/name\<close> as its directory. \<open>holders rt k\<close> are the
  listed names whose id variable holds \<open>k\<close>, in list order, and \<open>client_record\<close>
  is the record that the configuration gives a name.
\<close>

definition holders :: "runtime \<Rightarrow> string \<Rightarrow> string list" where
  "holders rt k = filter (\<lambda>nm. env rt (id_var rt nm) = Some k) (client_list rt)"

definition client_record :: "runtime \<Rightarrow> string \<Rightarrow> client" where
  "client_record rt nm =
     \<lparr>name = nm,
      secret = (case env rt (secret_var rt nm) of None \<Rightarrow> [] | Some s \<Rightarrow> s),
      assetDir = path_join rt (ASSETS_ROOT rt) nm\<rparr>"

definition lacks_credentials :: "runtime \<Rightarrow> string \<Rightarrow> bool" where
  "lacks_credentials rt nm = (falsy (env rt (id_var rt nm)) \<or> falsy (env rt (secret_var rt nm)))"


section \<open>The index as the specification words it\<close>

text \<open>
  The entries below a directory that are not directories themselves, each as the list
  of names leading to it, in the order of the walk; and whether every directory on the
  way can be listed.
\<close>

function leaves :: "string list \<Rightarrow> (string \<times> node) list \<Rightarrow> string list list" where
  "leaves cur [] = []"
| "leaves cur ((nm, Dir children) # entries) = leaves (cur @ [nm]) children @ leaves cur entries"
| "leaves cur ((nm, Unreadable) # entries) = leaves cur entries"
| "leaves cur ((nm, File bytes) # entries) = (cur @ [nm]) # leaves cur entries"
| "leaves cur ((nm, Special) # entries) = (cur @ [nm]) # leaves cur entries"
  by pat_completeness auto
termination
  by (relation "measure (\<lambda>(cur, entries). size_list (size_prod (\<lambda>_. 0) size) entries)") auto

function readable :: "(string \<times> node) list \<Rightarrow> bool" where
  "readable [] = True"
| "readable ((nm, Dir children) # entries) = (readable children \<and> readable entries)"
| "readable ((nm, Unreadable) # entries) = False"
| "readable ((nm, File bytes) # entries) = readable entries"
| "readable ((nm, Special) # entries) = readable entries"
  by pat_completeness auto
termination
  by (relation "measure (\<lambda>entries. size_list (size_prod (\<lambda>_. 0) size) entries)") auto

text \<open>
  Stripping the final extension, in the words of the specification: the extension is
  the text after the last dot of the final path segment; when the segment has a dot and
  that text is not empty, the dot and the text are removed; otherwise the path is
  unchanged.
\<close>

definition final_segment :: "string \<Rightarrow> string" where
  "final_segment p = rev (takeWhile (\<lambda>c. c \<noteq> CHR ''/'') (rev p))"

definition extension :: "string \<Rightarrow> string" where
  "extension seg = rev (takeWhile (\<lambda>c. c \<noteq> CHR ''.'') (rev seg))"

definition strip_final_extension :: "string \<Rightarrow> string" where
  "strip_final_extension p =
     (let seg = final_segment p; ext = extension seg
      in if CHR ''.'' \<in> set seg \<and> ext \<noteq> [] then take (length p - Suc (length ext)) p
         else p)"

text \<open>
  Key and value of an entry as C2 states them: the names joined by slashes (the
  relative path with the separators of the platform replaced by slashes), the key with
  the final extension stripped.
\<close>

definition claimed_key :: "string list \<Rightarrow> string" where
  "claimed_key segs = strip_final_extension (join_with (CHR ''/'') segs)"

definition claimed_url :: "request \<Rightarrow> string \<Rightarrow> string list \<Rightarrow> string" where
  "claimed_url req clientName segs =
     protocol req @ ''://'' @ (case headers req ''host'' of None \<Rightarrow> ''undefined'' | Some h \<Rightarrow> h)
       @ ''/assets/'' @ clientName @ ''/'' @ join_with (CHR ''/'') segs"



text \<open>
  Key and value as the builder computes them: every backslash of the relative path
  becomes a slash, whether or not it is a separator of the platform.
\<close>

definition entry_key :: "char \<Rightarrow> string list \<Rightarrow> string" where
  "entry_key sp segs = strip_final_extension (replace_backslashes (join_with sp segs))"

definition entry_url :: "char \<Rightarrow> request \<Rightarrow> string \<Rightarrow> string list \<Rightarrow> string" where
  "entry_url sp req clientName segs =
     protocol req @ ''://'' @ (case headers req ''host'' of None \<Rightarrow> ''undefined'' | Some h \<Rightarrow> h)
       @ ''/assets/'' @ clientName @ ''/'' @ replace_backslashes (join_with sp segs)"

text \<open>
  Sample directories of \<open>acme\<close>: a tree with a nested image, a name with two dots, a
  name without a dot and a dotfile; on POSIX, a file whose name holds a backslash; a
  file named \<open>__proto__.png\<close>; two files that differ in their extension only; and
  a directory with a subdirectory that cannot be listed.
\<close>

definition tree_disk :: "string \<Rightarrow> node option" where
  "tree_disk =
     [''/srv/assets/acme'' \<mapsto>
        Dir [(''sub'', Dir [(''dir'', Dir [(''img.png'', File ''PNG-bytes'')])]),
             (''a.b.txt'', File ''text''),
             (''README'', File ''read me''),
             (''.gitignore'', File ''*.tmp'')]]"

definition backslash_name :: string where
  "backslash_name = ''a'' @ [backslash] @ ''b.txt''"

definition backslash_disk :: "string \<Rightarrow> node option" where
  "backslash_disk = [''/srv/assets/acme'' \<mapsto> Dir [(backslash_name, File ''text'')]]"

definition proto_disk :: "string \<Rightarrow> node option" where
  "proto_disk = [''/srv/assets/acme'' \<mapsto> Dir [(''__proto__.png'', File ''PNG-bytes'')]]"


definition locked_disk :: "string \<Rightarrow> node option" where
  "locked_disk =
     [''/srv/assets/acme'' \<mapsto> Dir [(''logo.png'', File ''PNG-bytes''), (''private'', Unreadable)]]"

section \<open>Properties of the authentication middleware\<close>

lemma array_index_abc: "array_index ''abc'' = None"
  by (simp add: array_index_def is_digit_def)

lemma acme_clients_get: "clients_get acme_clients ''abc'' = Client_obj acme"
  by (simp add: acme_clients_def clients_set_def empty_clients_def clients_get_def
      prop_set_def array_index_abc)

lemma authenticateClient_missing:
  "falsy (headers req ''x-client-id'') \<or> falsy (headers req ''x-client-secret'') \<Longrightarrow>
     authenticateClient clients req r = Sent (unauthorized r)"
  by (auto simp: authenticateClient_def unauthorized_def)

lemma authenticateClient_present:
  "headers req ''x-client-id'' = Some cid \<Longrightarrow> headers req ''x-client-secret'' = Some cs \<Longrightarrow>
   cid \<noteq> [] \<Longrightarrow> cs \<noteq> [] \<Longrightarrow>
     authenticateClient clients req r =
       (case clients_get clients cid of
          Client_obj c \<Rightarrow>
            if secret c \<noteq> cs then Sent (forbidden r) else Next (req\<lparr>client := Some c\<rparr>) r
        | _ \<Rightarrow> Sent (forbidden r))"
  by (simp add: authenticateClient_def falsy_def forbidden_def split: jsval.splits)

lemma status_unauthorized: "status (unauthorized r) = 401"
  by (simp add: unauthorized_def send_json_def)

lemma body_unauthorized:
  "body (unauthorized r) = Json [(''error'', ''Missing authentication headers'')]"
  by (simp add: unauthorized_def send_json_def)

lemma status_forbidden: "status (forbidden r) = 403"
  by (simp add: forbidden_def send_json_def)

lemma body_forbidden:
  "body (forbidden r) = Json [(''error'', ''Invalid client credentials'')]"
  by (simp add: forbidden_def send_json_def)

text \<open>
  C3. When the \<open>x-client-id\<close> header or the \<open>x-client-secret\<close> header is absent,
  the authentication middleware sends status 401 with a JSON error body and does not
  call the next handler, whatever the registry holds for the supplied id.
\<close>

theorem auth_missing_header_401:
  "headers req ''x-client-id'' = None \<or> headers req ''x-client-secret'' = None \<Longrightarrow>
     authenticateClient clients req r = Sent (unauthorized r)
     \<and> status (unauthorized r) = 401
     \<and> body (unauthorized r) = Json [(''error'', ''Missing authentication headers'')]"
  by (auto simp: authenticateClient_missing falsy_def status_unauthorized body_unauthorized)

theorem auth_missing_header_401_witness:
  "clients_get acme_clients ''abc'' = Client_obj acme
   \<and> authenticateClient acme_clients (api_request [''x-client-id'' \<mapsto> ''abc'']) fresh_res
       = Sent (unauthorized fresh_res)
   \<and> status (unauthorized fresh_res) = 401"
proof -
  have "headers (api_request [''x-client-id'' \<mapsto> ''abc'']) ''x-client-id'' = None
      \<or> headers (api_request [''x-client-id'' \<mapsto> ''abc'']) ''x-client-secret'' = None"
    by (simp add: api_request_def)
  from auth_missing_header_401 [OF this] show ?thesis
    by (simp add: acme_clients_get)
qed

text \<open>
  C10. A header that is present with the empty string as its value counts as missing:
  when \<open>x-client-id\<close> or \<open>x-client-secret\<close> is the empty string the middleware
  sends 401, not 403, also when the other header carries valid credentials.
\<close>

theorem auth_empty_header_401:
  "headers req ''x-client-id'' = Some [] \<or> headers req ''x-client-secret'' = Some [] \<Longrightarrow>
     authenticateClient clients req r = Sent (unauthorized r)
     \<and> status (unauthorized r) = 401
     \<and> Sent (unauthorized r) \<noteq> Sent (forbidden r)"
proof -
  assume "headers req ''x-client-id'' = Some [] \<or> headers req ''x-client-secret'' = Some []"
  then have "falsy (headers req ''x-client-id'') \<or> falsy (headers req ''x-client-secret'')"
    by (auto simp: falsy_def)
  then have "authenticateClient clients req r = Sent (unauthorized r)"
    by (rule authenticateClient_missing)
  moreover have "unauthorized r \<noteq> forbidden r"
    using status_unauthorized [of r] status_forbidden [of r] by auto
  ultimately show ?thesis
    by (simp add: status_unauthorized)
qed

theorem auth_empty_header_401_witness:
  "clients_get acme_clients ''abc'' = Client_obj acme
   \<and> authenticateClient acme_clients
         (api_request [''x-client-id'' \<mapsto> ''abc'', ''x-client-secret'' \<mapsto> []]) fresh_res
       = Sent (unauthorized fresh_res)
   \<and> status (unauthorized fresh_res) = 401"
proof -
  have "headers (api_request [''x-client-id'' \<mapsto> ''abc'', ''x-client-secret'' \<mapsto> []])
          ''x-client-id'' = Some []
      \<or> headers (api_request [''x-client-id'' \<mapsto> ''abc'', ''x-client-secret'' \<mapsto> []])
          ''x-client-secret'' = Some []"
    by (simp add: api_request_def)
  from auth_empty_header_401 [OF this] show ?thesis
    by (simp add: acme_clients_get)
qed

text \<open>
  C4, as stated, promises 403 whenever both headers are present and the pair is not a
  registered one. It fails where a present header is empty: with the registered id
  \<open>abc\<close> and an empty \<open>x-client-secret\<close>, which differs from the stored secret, the
  middleware sends 401.
\<close>

theorem auth_invalid_403_counterexample:
  "headers (api_request [''x-client-id'' \<mapsto> ''abc'', ''x-client-secret'' \<mapsto> []])
     ''x-client-id'' = Some ''abc''
   \<and> headers (api_request [''x-client-id'' \<mapsto> ''abc'', ''x-client-secret'' \<mapsto> []])
     ''x-client-secret'' = Some []
   \<and> clients_get acme_clients ''abc'' = Client_obj acme
   \<and> secret acme \<noteq> []
   \<and> authenticateClient acme_clients
         (api_request [''x-client-id'' \<mapsto> ''abc'', ''x-client-secret'' \<mapsto> []]) fresh_res
       = Sent (unauthorized fresh_res)
   \<and> status (unauthorized fresh_res) = 401
   \<and> status (forbidden fresh_res) = 403"
  by (simp add: authenticateClient_missing falsy_def api_request_def acme_clients_get
      status_unauthorized status_forbidden acme_def)

text \<open>
  C4, amended. When both headers are present and non-empty: if \<open>CLIENTS[x-client-id]\<close>
  is not a client record, or it is one whose stored secret differs from the supplied
  \<open>x-client-secret\<close>, the middleware sends 403 with a JSON error body and does not call
  the next handler; if it is a client record with exactly the supplied secret, the
  middleware attaches that record to the request and calls the next handler.
\<close>

theorem auth_invalid_403:
  assumes "headers req ''x-client-id'' = Some cid"
    and "headers req ''x-client-secret'' = Some cs"
    and "cid \<noteq> []" and "cs \<noteq> []"
  shows "((\<forall>c. clients_get clients cid \<noteq> Client_obj c) \<or>
          (\<exists>c. clients_get clients cid = Client_obj c \<and> secret c \<noteq> cs)
            \<longrightarrow> authenticateClient clients req r = Sent (forbidden r)
                \<and> status (forbidden r) = 403
                \<and> body (forbidden r) = Json [(''error'', ''Invalid client credentials'')])
       \<and> (\<forall>c. clients_get clients cid = Client_obj c \<and> secret c = cs
            \<longrightarrow> authenticateClient clients req r = Next (req\<lparr>client := Some c\<rparr>) r)"
  using authenticateClient_present [OF assms, of clients r]
  by (auto simp: status_forbidden body_forbidden split: jsval.splits)

theorem auth_invalid_403_witness:
  "authenticateClient acme_clients
     (api_request [''x-client-id'' \<mapsto> ''abc'', ''x-client-secret'' \<mapsto> ''nope'']) fresh_res
     = Sent (forbidden fresh_res)
   \<and> authenticateClient acme_clients
     (api_request [''x-client-id'' \<mapsto> ''nobody'', ''x-client-secret'' \<mapsto> ''xyz'']) fresh_res
     = Sent (forbidden fresh_res)
   \<and> authenticateClient acme_clients
     (api_request [''x-client-id'' \<mapsto> ''abc'', ''x-client-secret'' \<mapsto> ''xyz'']) fresh_res
     = Next (api_request [''x-client-id'' \<mapsto> ''abc'', ''x-client-secret'' \<mapsto> ''xyz'']
               \<lparr>client := Some acme\<rparr>) fresh_res"
proof -
  have nobody: "clients_get acme_clients ''nobody'' = Undefined"
    by (simp add: acme_clients_def clients_set_def empty_clients_def clients_get_def
        prop_set_def array_index_abc object_prototype_keys_def)
  have a: "authenticateClient acme_clients
     (api_request [''x-client-id'' \<mapsto> ''abc'', ''x-client-secret'' \<mapsto> ''nope'']) fresh_res
     = Sent (forbidden fresh_res)"
    using auth_invalid_403 [of "api_request [''x-client-id'' \<mapsto> ''abc'', ''x-client-secret'' \<mapsto> ''nope'']"
        "''abc''" "''nope''" acme_clients fresh_res]
    by (simp add: api_request_def acme_clients_get acme_def)
  have b: "authenticateClient acme_clients
     (api_request [''x-client-id'' \<mapsto> ''nobody'', ''x-client-secret'' \<mapsto> ''xyz'']) fresh_res
     = Sent (forbidden fresh_res)"
    using auth_invalid_403 [of "api_request [''x-client-id'' \<mapsto> ''nobody'', ''x-client-secret'' \<mapsto> ''xyz'']"
        "''nobody''" "''xyz''" acme_clients fresh_res]
    by (simp add: api_request_def nobody)
  have c: "authenticateClient acme_clients
     (api_request [''x-client-id'' \<mapsto> ''abc'', ''x-client-secret'' \<mapsto> ''xyz'']) fresh_res
     = Next (api_request [''x-client-id'' \<mapsto> ''abc'', ''x-client-secret'' \<mapsto> ''xyz'']
               \<lparr>client := Some acme\<rparr>) fresh_res"
    using auth_invalid_403 [of "api_request [''x-client-id'' \<mapsto> ''abc'', ''x-client-secret'' \<mapsto> ''xyz'']"
        "''abc''" "''xyz''" acme_clients fresh_res]
    by (simp add: api_request_def acme_clients_get acme_def)
  from a b c show ?thesis by simp
qed

section \<open>Properties of the CORS middleware and of the middleware order\<close>

lemma cors_options:
  "http_method req = ''OPTIONS'' \<Longrightarrow>
     cors allowed req r =
       Sent (sendStatus 204 (if cors_permits allowed req
                             then cors_headers (or_default (headers req ''origin'') ''*'') r
                             else r))"
  by (simp add: cors_def cors_headers_def Let_def)

lemma status_sendStatus: "status (sendStatus code r) = code"
  by (simp add: sendStatus_def)

lemma body_sendStatus_204: "body (sendStatus 204 r) = NoBody"
  by (simp add: sendStatus_def)

lemma header_list_sendStatus: "header_list (sendStatus code r) = header_list r"
  by (simp add: sendStatus_def)

lemma map_of_overwrite:
  "map_of ps k = Some w \<Longrightarrow> map_of (overwrite k v ps) = (map_of ps)(k \<mapsto> v)"
  by (induction ps) (auto split: if_splits)

lemma map_of_setHeader:
  "map_of (header_list (setHeader k v r)) = (map_of (header_list r))(k \<mapsto> v)"
proof (cases "map_of (header_list r) k")
  case None
  then have "map_of (header_list r @ [(k, v)]) = (map_of (header_list r))(k \<mapsto> v)"
    by (auto simp: fun_eq_iff map_add_def split: option.splits)
  with None show ?thesis by (simp add: setHeader_def)
next
  case (Some w)
  then show ?thesis by (simp add: setHeader_def map_of_overwrite)
qed

lemma preflight_method: "http_method (preflight origin) = ''OPTIONS''"
  by (simp add: preflight_def)

lemma evil_not_permitted:
  "\<not> cors_permits [''https://app.example.com''] (preflight ''http://evil.example'')"
  by (simp add: preflight_def cors_permits_def)

text \<open>
  C7, as stated, sends an \<open>OPTIONS\<close> request whose origin is not permitted to default
  handling instead of answering 204. The middleware answers it 204 all the same: the
  test on the method stands outside the test on the origin.
\<close>

theorem preflight_204_counterexample:
  "http_method (preflight ''http://evil.example'') = ''OPTIONS''
   \<and> \<not> cors_permits [''https://app.example.com''] (preflight ''http://evil.example'')
   \<and> cors [''https://app.example.com''] (preflight ''http://evil.example'') fresh_res
       = Sent (sendStatus 204 fresh_res)
   \<and> status (sendStatus 204 fresh_res) = 204"
  using preflight_method [of "''http://evil.example''"] evil_not_permitted
  by (simp add: cors_options status_sendStatus)

text \<open>
  C7, amended. The CORS middleware answers every \<open>OPTIONS\<close> request with status 204
  and no body, and does not call the next handler. When the CORS logic permits the
  request (no \<open>Origin\<close> header, an empty one, or an origin in the allow-list) the
  response carries the four CORS headers (\<open>Access-Control-Allow-Origin\<close> being the
  origin or \<open>*\<close>) and every other header as it was; when it does not, the response
  carries no header beyond those already set.
\<close>

theorem preflight_204:
  "http_method req = ''OPTIONS'' \<Longrightarrow>
     (\<exists>r'. cors allowed req r = Sent r' \<and> status r' = 204 \<and> body r' = NoBody
        \<and> (cors_permits allowed req \<longrightarrow>
               map_of (header_list r') =
                 (map_of (header_list r))
                   (''Access-Control-Allow-Origin'' \<mapsto> or_default (headers req ''origin'') ''*'',
                    ''Access-Control-Allow-Credentials'' \<mapsto> ''true'',
                    ''Access-Control-Allow-Methods'' \<mapsto> ''GET,POST,OPTIONS'',
                    ''Access-Control-Allow-Headers'' \<mapsto>
                      ''Content-Type, Authorization, x-client-id, x-client-secret''))
        \<and> (\<not> cors_permits allowed req \<longrightarrow> header_list r' = header_list r))"
  by (simp add: cors_options status_sendStatus body_sendStatus_204 header_list_sendStatus
      cors_headers_def map_of_setHeader)

theorem preflight_204_witness:
  "(\<exists>r'. cors [''https://app.example.com''] (preflight ''http://evil.example'') fresh_res = Sent r'
        \<and> status r' = 204 \<and> body r' = NoBody \<and> header_list r' = [])
   \<and> (\<exists>r'. cors [''https://app.example.com''] (preflight ''https://app.example.com'') fresh_res
            = Sent r'
        \<and> status r' = 204 \<and> body r' = NoBody
        \<and> map_of (header_list r') ''Access-Control-Allow-Origin'' = Some ''https://app.example.com''
        \<and> map_of (header_list r') ''Access-Control-Allow-Credentials'' = Some ''true''
        \<and> map_of (header_list r') ''Access-Control-Allow-Methods'' = Some ''GET,POST,OPTIONS''
        \<and> map_of (header_list r') ''Access-Control-Allow-Headers''
            = Some ''Content-Type, Authorization, x-client-id, x-client-secret''
        \<and> map_of (header_list r') ''Set-Cookie'' = None)"
proof -
  have good: "cors_permits [''https://app.example.com''] (preflight ''https://app.example.com'')"
    by (simp add: preflight_def cors_permits_def)
  have o: "or_default (headers (preflight ''https://app.example.com'') ''origin'') ''*''
             = ''https://app.example.com''"
    by (simp add: preflight_def or_default_def)
  have e: "map_of (header_list fresh_res) = Map.empty"
    by (simp add: fresh_res_def)
  from preflight_204 [OF preflight_method, of "[''https://app.example.com'']"
            "''http://evil.example''" fresh_res] evil_not_permitted
  have a: "\<exists>r'. cors [''https://app.example.com''] (preflight ''http://evil.example'') fresh_res
             = Sent r' \<and> status r' = 204 \<and> body r' = NoBody \<and> header_list r' = []"
    by (simp add: fresh_res_def)
  from preflight_204 [OF preflight_method, of "[''https://app.example.com'']"
            "''https://app.example.com''" fresh_res] good
  obtain r' where r: "cors [''https://app.example.com''] (preflight ''https://app.example.com'')
             fresh_res = Sent r'" "status r' = 204" "body r' = NoBody"
    and m: "map_of (header_list r') =
                 (map_of (header_list fresh_res))
                   (''Access-Control-Allow-Origin'' \<mapsto>
                      or_default (headers (preflight ''https://app.example.com'') ''origin'') ''*'',
                    ''Access-Control-Allow-Credentials'' \<mapsto> ''true'',
                    ''Access-Control-Allow-Methods'' \<mapsto> ''GET,POST,OPTIONS'',
                    ''Access-Control-Allow-Headers'' \<mapsto>
                      ''Content-Type, Authorization, x-client-id, x-client-secret'')"
    by auto
  have "map_of (header_list r') ''Access-Control-Allow-Origin'' = Some ''https://app.example.com''
        \<and> map_of (header_list r') ''Access-Control-Allow-Credentials'' = Some ''true''
        \<and> map_of (header_list r') ''Access-Control-Allow-Methods'' = Some ''GET,POST,OPTIONS''
        \<and> map_of (header_list r') ''Access-Control-Allow-Headers''
            = Some ''Content-Type, Authorization, x-client-id, x-client-secret''
        \<and> map_of (header_list r') ''Set-Cookie'' = None"
    by (simp add: m o e)
  with r a show ?thesis by blast
qed

text \<open>
  C9. Every \<open>OPTIONS\<close> request is answered 204 by the CORS middleware, which is
  mounted before \<open>express.json()\<close>, the rate limiter and the routes. The state of the
  rate limiter is returned unchanged, so the request is not counted; the status is 204,
  never 429; and the answer is the same whatever the body parser, the rate limiter, the
  file server and the registry are, so none of them, and no authentication, takes part.
\<close>

theorem preflight_bypasses_limiter:
  "http_method req = ''OPTIONS'' \<Longrightarrow>
     (\<exists>r. app lib srv disk sp st req = (r, st) \<and> status r = 204 \<and> body r = NoBody)
     \<and> (\<forall>js rl es cs.
            app (lib\<lparr>express_json := js, rateLimit := rl, express_static := es\<rparr>)
                (srv\<lparr>CLIENTS := cs\<rparr>) disk sp st req
              = app lib srv disk sp st req)"
  by (simp add: app_def cors_options status_sendStatus body_sendStatus_204)

theorem preflight_bypasses_limiter_witness:
  "(\<exists>r. app strict_libraries acme_server Map.empty (CHR ''/'') (0::nat)
           (preflight ''https://app.example.com'') = (r, 0)
        \<and> status r = 204 \<and> body r = NoBody)
   \<and> fst (rateLimit strict_libraries windowMs max_hits (0::nat)
              (preflight ''https://app.example.com'') fresh_res)
       = Sent (fresh_res\<lparr>status := 429, body := Text ''Too many requests''\<rparr>)"
  using preflight_bypasses_limiter [OF preflight_method, of strict_libraries acme_server
      Map.empty "CHR ''/''" "0::nat" "''https://app.example.com''"]
  by (simp add: strict_libraries_def)

section \<open>Properties of the static route\<close>

lemma find_no_match: "(\<forall>x \<in> set xs. \<not> P x) \<Longrightarrow> find P xs = None"
  by (induction xs) auto

lemma find_first_match:
  "(\<forall>x \<in> set pre. \<not> P x) \<Longrightarrow> P c \<Longrightarrow> find P (pre @ c # post) = Some c"
  by (induction pre) auto

text \<open>
  C8. The static route resolves the \<open>:client\<close> segment against the values of the
  registry by their \<open>name\<close> field. When no record has that name it answers 404 and
  the file server is not called (the answer is the same for every file server). When
  some record has it, the first one in registry order is taken and the request is
  handed to the file server rooted at that record's \<open>assetDir\<close>, and at no other.
\<close>

theorem static_route_by_name:
  "((\<forall>c \<in> set (object_values clients). name c \<noteq> params_client req) \<longrightarrow>
       assets_route clients static req r = Sent (sendStatus 404 r)
       \<and> status (sendStatus 404 r) = 404)
   \<and> (\<forall>pre c post.
          object_values clients = pre @ c # post
          \<and> (\<forall>c' \<in> set pre. name c' \<noteq> params_client req)
          \<and> name c = params_client req \<longrightarrow>
            assets_route clients static req r = static (assetDir c) req r)"
  by (simp add: assets_route_def find_no_match find_first_match status_sendStatus)

theorem static_route_by_name_witness:
  "assets_route twin_clients (express_static strict_libraries) (static_request ''doesnotexist'')
     fresh_res = Sent (sendStatus 404 fresh_res)
   \<and> assets_route twin_clients (express_static strict_libraries) (static_request ''acme'')
       fresh_res = Sent (fresh_res\<lparr>body := Text ''/srv/assets/first''\<rparr>)"
proof -
  have v: "object_values twin_clients =
      [] @ \<lparr>name = ''acme'', secret = ''s1'', assetDir = ''/srv/assets/first''\<rparr>
         # [\<lparr>name = ''acme'', secret = ''s2'', assetDir = ''/srv/assets/second''\<rparr>]"
    by (simp add: twin_clients_def object_values_def)
  have none: "\<forall>c \<in> set (object_values twin_clients).
                name c \<noteq> params_client (static_request ''doesnotexist'')"
    by (simp add: twin_clients_def object_values_def static_request_def)
  have a: "assets_route twin_clients (express_static strict_libraries)
             (static_request ''doesnotexist'') fresh_res = Sent (sendStatus 404 fresh_res)"
    using static_route_by_name [of twin_clients "static_request ''doesnotexist''"
        "express_static strict_libraries" fresh_res] none
    by blast
  have b: "assets_route twin_clients (express_static strict_libraries) (static_request ''acme'')
             fresh_res
           = express_static strict_libraries
               (assetDir \<lparr>name = ''acme'', secret = ''s1'', assetDir = ''/srv/assets/first''\<rparr>)
               (static_request ''acme'') fresh_res"
  proof -
    have "object_values twin_clients =
            [] @ \<lparr>name = ''acme'', secret = ''s1'', assetDir = ''/srv/assets/first''\<rparr>
               # [\<lparr>name = ''acme'', secret = ''s2'', assetDir = ''/srv/assets/second''\<rparr>]
          \<and> (\<forall>c' \<in> set []. name c' \<noteq> params_client (static_request ''acme''))
          \<and> name \<lparr>name = ''acme'', secret = ''s1'', assetDir = ''/srv/assets/first''\<rparr>
              = params_client (static_request ''acme'')"
      using v by (simp add: static_request_def)
    with static_route_by_name [of twin_clients "static_request ''acme''"
        "express_static strict_libraries" fresh_res]
    show ?thesis by blast
  qed
  from a b show ?thesis
    by (simp add: strict_libraries_def)
qed

section \<open>Properties of the index route\<close>

lemma logo_key: "relativeKey (CHR ''/'') [''logo.png''] = ''logo''"
  by (simp add: relativeKey_def replace_backslashes_def backslash_def)

lemma logo_url:
  "asset_url (CHR ''/'') authed_request ''acme'' [''logo.png'']
     = ''http://host/assets/acme/logo.png''"
  by (simp add: asset_url_def replace_backslashes_def backslash_def baseUrl_def
      authed_request_def api_request_def acme_headers_def)

lemma array_index_logo: "array_index ''logo'' = None"
  by (simp add: array_index_def is_digit_def)

lemma acme_index:
  "buildAssetIndex acme_disk (CHR ''/'') authed_request ''acme'' ''/srv/assets/acme''
     = Inr [(''logo'', ''http://host/assets/acme/logo.png'')]"
  by (simp add: buildAssetIndex_def acme_disk_def logo_key logo_url result_set_def
      prop_set_def array_index_logo)

text \<open>
  C6. For a request that authentication has resolved to client \<open>c\<close>: when
  \<open>assetDir\<close> does not exist the handler answers 200 with the empty mapping, and the
  builder was not invoked (invoked on a missing directory it fails with \<open>ENOENT\<close>,
  which the handler would have turned into an error response); when \<open>assetDir\<close>
  exists and the builder returns an index, the handler answers 200 with that index.
\<close>

theorem missing_asset_dir_empty:
  assumes "client req = Some c" and "status r = 200"
  shows "(disk (assetDir c) = None \<longrightarrow>
            api_assets_handler disk sp req r = send_json [] r
            \<and> status (send_json [] r) = 200 \<and> body (send_json [] r) = Json []
            \<and> buildAssetIndex disk sp req (name c) (assetDir c) = Inl ENOENT)
       \<and> (\<forall>assets. disk (assetDir c) \<noteq> None
             \<and> buildAssetIndex disk sp req (name c) (assetDir c) = Inr assets \<longrightarrow>
               api_assets_handler disk sp req r = send_json assets r
               \<and> status (send_json assets r) = 200 \<and> body (send_json assets r) = Json assets)"
  using assms
  by (auto simp: api_assets_handler_def existsSync_def send_json_def buildAssetIndex_def)

theorem missing_asset_dir_empty_witness:
  "api_assets_handler Map.empty (CHR ''/'') authed_request fresh_res = send_json [] fresh_res
   \<and> api_assets_handler acme_disk (CHR ''/'') authed_request fresh_res
       = send_json [(''logo'', ''http://host/assets/acme/logo.png'')] fresh_res"
proof -
  have c: "client authed_request = Some acme" by (simp add: authed_request_def)
  have s: "status fresh_res = 200" by (simp add: fresh_res_def)
  have d: "acme_disk (assetDir acme) \<noteq> None" by (simp add: acme_disk_def acme_def)
  have i: "buildAssetIndex acme_disk (CHR ''/'') authed_request (name acme) (assetDir acme)
             = Inr [(''logo'', ''http://host/assets/acme/logo.png'')]"
    using acme_index by (simp add: acme_def)
  from missing_asset_dir_empty [OF c s, of Map.empty "CHR ''/''"]
       missing_asset_dir_empty [OF c s, of acme_disk "CHR ''/''"] d i
  show ?thesis by simp
qed

section \<open>Properties of the registry\<close>

lemma map_of_insert_index:
  "map_of ps k = None \<Longrightarrow> map_of (insert_index n k v ps) = (map_of ps)(k \<mapsto> v)"
  by (induction ps) (auto simp: fun_eq_iff split: option.splits if_splits)

lemma map_add_single_new: "m k = None \<Longrightarrow> [k \<mapsto> v] ++ m = m(k \<mapsto> v)"
  by (auto simp: fun_eq_iff map_add_def split: option.splits)

lemma map_of_prop_set: "map_of (prop_set k v ps) = (map_of ps)(k \<mapsto> v)"
  by (auto simp: prop_set_def map_of_insert_index map_add_single_new map_of_overwrite
      split: option.splits)

lemma clients_get_set:
  "map_of (own obj) ''__proto__'' = None \<Longrightarrow>
     (clients_get (clients_set k c obj) k' = Client_obj c') =
       (if k' = k then c' = c else clients_get obj k' = Client_obj c')"
  by (auto simp: clients_get_def clients_set_def map_of_prop_set split: option.splits if_splits)

lemma own_proto_set:
  "map_of (own obj) ''__proto__'' = None \<Longrightarrow>
     map_of (own (clients_set k c obj)) ''__proto__'' = None"
  by (auto simp: clients_set_def map_of_prop_set)

lemma load_loop_step:
  assumes "load_loop rt (nm # list) clients = Inr cs"
  obtains i s where "env rt (id_var rt nm) = Some i" and "env rt (secret_var rt nm) = Some s"
    and "i \<noteq> []" and "s \<noteq> []"
    and "load_loop rt list
           (clients_set i \<lparr>name = nm, secret = s, assetDir = path_join rt (ASSETS_ROOT rt) nm\<rparr>
              clients) = Inr cs"
  using assms by (auto simp: Let_def falsy_def split: if_splits option.splits)

lemma load_loop_fails:
  "(\<exists>e. load_loop rt list clients = Inl e) = (\<exists>nm \<in> set list. lacks_credentials rt nm)"
  by (induction list arbitrary: clients) (auto simp: Let_def lacks_credentials_def)


lemma empty_clients_get: "clients_get empty_clients k \<noteq> Client_obj c"
  by (simp add: clients_get_def empty_clients_def)


lemma upper_acme: "ascii_upper ''acme'' = ''ACME''"
  by code_simp

lemma upper_beta: "ascii_upper ''beta'' = ''BETA''"
  by code_simp

lemma loadClients_acme: "loadClients acme_runtime = Inr acme_clients"
  by (simp add: loadClients_def client_list_def acme_runtime_def or_default_def comma_list_def
      ascii_trim_def is_space_def id_var_def secret_var_def upper_acme falsy_def acme_clients_def
      acme_def ASSETS_ROOT_def)

lemma client_list_broken: "client_list broken_runtime = [''acme'', ''beta'']"
  by (simp add: client_list_def broken_runtime_def or_default_def comma_list_def
      ascii_trim_def is_space_def)

lemma split_on_not_Nil: "split_on d acc s \<noteq> []"
  by (induction s arbitrary: acc) auto

lemma join_with_Cons: "xs \<noteq> [] \<Longrightarrow> join_with d (x # xs) = x @ d # join_with d xs"
  by (cases xs) auto

lemma join_split_on: "join_with d (split_on d acc s) = rev acc @ s"
  by (induction s arbitrary: acc) (auto simp: join_with_Cons split_on_not_Nil)

lemma split_on_free: "d \<notin> set acc \<Longrightarrow> p \<in> set (split_on d acc s) \<Longrightarrow> d \<notin> set p"
proof (induction s arbitrary: acc)
  case Nil
  then show ?case by auto
next
  case (Cons c s)
  show ?case
  proof (cases "c = d")
    case True
    with Cons.prems have "p = rev acc \<or> p \<in> set (split_on d [] s)" by simp
    then show ?thesis
    proof
      assume "p = rev acc"
      with Cons.prems(1) show ?thesis by simp
    next
      assume "p \<in> set (split_on d [] s)"
      with Cons.IH [of "[]"] show ?thesis by simp
    qed
  next
    case False
    with Cons.prems have "p \<in> set (split_on d (c # acc) s)" by simp
    moreover from False Cons.prems(1) have "d \<notin> set (c # acc)" by auto
    ultimately show ?thesis using Cons.IH [of "c # acc"] by blast
  qed
qed

lemma client_list_pieces:
  "\<exists>pieces. join_with (CHR '','') pieces = or_default (env rt ''CLIENTS'') []
      \<and> (\<forall>p \<in> set pieces. CHR '','' \<notin> set p)
      \<and> client_list rt = filter (\<lambda>x. x \<noteq> []) (map (trim rt) pieces)"
proof -
  let ?s = "or_default (env rt ''CLIENTS'') []"
  have "join_with (CHR '','') (split_on (CHR '','') [] ?s) = ?s"
    by (simp add: join_split_on)
  moreover have "\<forall>p \<in> set (split_on (CHR '','') [] ?s). CHR '','' \<notin> set p"
    using split_on_free [of "CHR '',''" "[]" _ ?s] by simp
  moreover have "client_list rt = filter (\<lambda>x. x \<noteq> []) (map (trim rt) (split_on (CHR '','') [] ?s))"
    by (simp add: client_list_def comma_list_def)
  ultimately show ?thesis by blast
qed

lemma load_loop_first_error:
  "load_loop rt list clients = Inl e \<Longrightarrow>
     \<exists>pre nm post. list = pre @ nm # post \<and> (\<forall>n \<in> set pre. \<not> lacks_credentials rt n)
        \<and> lacks_credentials rt nm
        \<and> e = ConfigurationError (''Missing credentials for client '' @ nm)"
proof (induction list arbitrary: clients)
  case Nil
  then show ?case by simp
next
  case (Cons a list)
  show ?case
  proof (cases "lacks_credentials rt a")
    case True
    with Cons.prems have "e = ConfigurationError (''Missing credentials for client '' @ a)"
      by (simp add: lacks_credentials_def Let_def)
    with True have "a # list = [] @ a # list \<and> (\<forall>n \<in> set []. \<not> lacks_credentials rt n)
        \<and> lacks_credentials rt a
        \<and> e = ConfigurationError (''Missing credentials for client '' @ a)"
      by simp
    then show ?thesis by blast
  next
    case False
    with Cons.prems obtain cl where "load_loop rt list cl = Inl e"
      by (auto simp: lacks_credentials_def Let_def)
    from Cons.IH [OF this] obtain pre nm post where
      "list = pre @ nm # post" "\<forall>n \<in> set pre. \<not> lacks_credentials rt n"
      "lacks_credentials rt nm" "e = ConfigurationError (''Missing credentials for client '' @ nm)"
      by blast
    with False have "a # list = (a # pre) @ nm # post
        \<and> (\<forall>n \<in> set (a # pre). \<not> lacks_credentials rt n)
        \<and> lacks_credentials rt nm
        \<and> e = ConfigurationError (''Missing credentials for client '' @ nm)"
      by simp
    then show ?thesis by blast
  qed
qed

lemma load_loop_records:
  "load_loop rt list clients = Inr cs \<Longrightarrow> map_of (own clients) ''__proto__'' = None \<Longrightarrow>
     (clients_get cs k = Client_obj c) =
       (if filter (\<lambda>nm. env rt (id_var rt nm) = Some k) list = []
        then clients_get clients k = Client_obj c
        else c = client_record rt (last (filter (\<lambda>nm. env rt (id_var rt nm) = Some k) list)))"
proof (induction list arbitrary: clients)
  case Nil
  then show ?case by simp
next
  case (Cons nm list)
  from Cons.prems(1) obtain i s where i: "env rt (id_var rt nm) = Some i"
    and s: "env rt (secret_var rt nm) = Some s"
    and rest: "load_loop rt list
           (clients_set i \<lparr>name = nm, secret = s, assetDir = path_join rt (ASSETS_ROOT rt) nm\<rparr>
              clients) = Inr cs"
    by (rule load_loop_step)
  let ?c = "\<lparr>name = nm, secret = s, assetDir = path_join rt (ASSETS_ROOT rt) nm\<rparr>"
  have rec: "client_record rt nm = ?c"
    by (simp add: client_record_def s)
  have p: "map_of (own (clients_set i ?c clients)) ''__proto__'' = None"
    using Cons.prems(2) by (rule own_proto_set)
  note IH = Cons.IH [OF rest p]
  note step = clients_get_set [OF Cons.prems(2), of i ?c k c]
  show ?case
  proof (cases "k = i")
    case True
    with IH step i rec show ?thesis by auto
  next
    case False
    with IH step i show ?thesis by auto
  qed
qed

lemma loadClients_records:
  assumes "loadClients rt = Inr cs"
  shows "(clients_get cs k = Client_obj c) =
           (holders rt k \<noteq> [] \<and> c = client_record rt (last (holders rt k)))"
proof -
  have l: "load_loop rt (client_list rt) empty_clients = Inr cs"
    using assms by (simp add: loadClients_def)
  have p: "map_of (own empty_clients) ''__proto__'' = None"
    by (simp add: empty_clients_def)
  show ?thesis
    using load_loop_records [OF l p, of k c] empty_clients_get [of k c]
    by (simp add: holders_def split: if_splits)
qed

lemma upper_a: "ascii_upper ''a'' = ''A''"
  by code_simp

lemma upper_b: "ascii_upper ''b'' = ''B''"
  by code_simp

lemma array_index_x: "array_index ''x'' = None"
  by (simp add: array_index_def is_digit_def)

lemma client_list_shared: "client_list shared_runtime = [''a'', ''b'']"
  by (simp add: client_list_def shared_runtime_def or_default_def comma_list_def
      ascii_trim_def is_space_def)

lemma loadClients_shared: "loadClients shared_runtime = Inr shared_clients"
  by (simp add: loadClients_def client_list_shared)
     (simp add: shared_runtime_def id_var_def secret_var_def upper_a upper_b falsy_def
        shared_clients_def ASSETS_ROOT_def or_default_def clients_set_def empty_clients_def
        prop_set_def array_index_x)

text \<open>
  C5, as stated, has the mapping hold each client's own record under that client's id.
  With the clients \<open>a\<close> and \<open>b\<close> both given the id \<open>x\<close>, loading succeeds and the
  registry holds one record under \<open>x\<close>, that of \<open>b\<close>; the record of \<open>a\<close> is gone,
  and the id and secret of \<open>a\<close> are refused with 403.
\<close>

theorem loadClients_configuration_counterexample:
  "client_list shared_runtime = [''a'', ''b'']
   \<and> env shared_runtime (id_var shared_runtime ''a'') = Some ''x''
   \<and> env shared_runtime (secret_var shared_runtime ''a'') = Some ''sa''
   \<and> loadClients shared_runtime = Inr shared_clients
   \<and> clients_get shared_clients ''x''
       = Client_obj \<lparr>name = ''b'', secret = ''sb'', assetDir = ''/srv/assets/b''\<rparr>
   \<and> authenticateClient shared_clients
         (api_request [''x-client-id'' \<mapsto> ''x'', ''x-client-secret'' \<mapsto> ''sa'']) fresh_res
       = Sent (forbidden fresh_res)"
proof -
  have g: "clients_get shared_clients ''x''
       = Client_obj \<lparr>name = ''b'', secret = ''sb'', assetDir = ''/srv/assets/b''\<rparr>"
    by (simp add: shared_clients_def clients_get_def)
  have e: "env shared_runtime (id_var shared_runtime ''a'') = Some ''x''
         \<and> env shared_runtime (secret_var shared_runtime ''a'') = Some ''sa''"
    by (simp add: shared_runtime_def id_var_def secret_var_def upper_a)
  have f: "authenticateClient shared_clients
         (api_request [''x-client-id'' \<mapsto> ''x'', ''x-client-secret'' \<mapsto> ''sa'']) fresh_res
       = Sent (forbidden fresh_res)"
    using authenticateClient_present [of
        "api_request [''x-client-id'' \<mapsto> ''x'', ''x-client-secret'' \<mapsto> ''sa'']"
        "''x''" "''sa''" shared_clients fresh_res]
    by (simp add: api_request_def g)
  from client_list_shared e loadClients_shared g f show ?thesis by simp
qed


text \<open>
  C5, amended. \<open>loadClients\<close> throws exactly when some name of the configured list
  lacks an id or a secret (the variable is unset or empty); the error names the first
  such name, and the module then fails to load, so that no server exists. When it
  succeeds, the registry yields a client record under a key exactly when some listed
  name has that key as its id, and the record is that of the last such name in the
  list: its name, its secret, and \<open>ASSETS_ROOT/name\<close> as \<open>assetDir\<close>. So a client's
  id leads to that client's own record unless a later listed client has the same id.
  The configured list is the \<open>CLIENTS\<close> string cut at its commas, each piece trimmed,
  the empty pieces dropped.
\<close>

theorem loadClients_configuration:
  "((\<exists>e. loadClients rt = Inl e) \<longleftrightarrow> (\<exists>nm \<in> set (client_list rt). lacks_credentials rt nm))
   \<and> (\<forall>e. loadClients rt = Inl e \<longrightarrow>
          startup rt = Inl e
          \<and> (\<exists>pre nm post. client_list rt = pre @ nm # post
                \<and> (\<forall>n \<in> set pre. \<not> lacks_credentials rt n) \<and> lacks_credentials rt nm
                \<and> e = ConfigurationError (''Missing credentials for client '' @ nm)))
   \<and> (\<forall>cs. loadClients rt = Inr cs \<longrightarrow>
          (\<exists>srv. startup rt = Inr srv \<and> CLIENTS srv = cs)
          \<and> (\<forall>k c. clients_get cs k = Client_obj c \<longleftrightarrow>
                 holders rt k \<noteq> [] \<and> c = client_record rt (last (holders rt k))))
   \<and> (\<exists>pieces. join_with (CHR '','') pieces = or_default (env rt ''CLIENTS'') []
          \<and> (\<forall>p \<in> set pieces. CHR '','' \<notin> set p)
          \<and> client_list rt = filter (\<lambda>x. x \<noteq> []) (map (trim rt) pieces))"
proof -
  have a: "(\<exists>e. loadClients rt = Inl e) \<longleftrightarrow> (\<exists>nm \<in> set (client_list rt). lacks_credentials rt nm)"
    by (simp add: loadClients_def load_loop_fails)
  have b: "\<forall>e. loadClients rt = Inl e \<longrightarrow>
          startup rt = Inl e
          \<and> (\<exists>pre nm post. client_list rt = pre @ nm # post
                \<and> (\<forall>n \<in> set pre. \<not> lacks_credentials rt n) \<and> lacks_credentials rt nm
                \<and> e = ConfigurationError (''Missing credentials for client '' @ nm))"
    using load_loop_first_error [of rt "client_list rt" empty_clients]
    by (simp add: loadClients_def startup_def)
  have c: "\<forall>cs. loadClients rt = Inr cs \<longrightarrow>
          (\<exists>srv. startup rt = Inr srv \<and> CLIENTS srv = cs)
          \<and> (\<forall>k c. clients_get cs k = Client_obj c \<longleftrightarrow>
                 holders rt k \<noteq> [] \<and> c = client_record rt (last (holders rt k)))"
    using loadClients_records [of rt]
    by (simp add: startup_def)
  from a b c client_list_pieces [of rt] show ?thesis by blast
qed

theorem loadClients_configuration_witness:
  "client_list broken_runtime = [''acme'', ''beta'']
   \<and> loadClients broken_runtime = Inl (ConfigurationError ''Missing credentials for client beta'')
   \<and> loadClients acme_runtime = Inr acme_clients
   \<and> clients_get acme_clients ''abc'' = Client_obj (client_record acme_runtime ''acme'')
   \<and> client_record acme_runtime ''acme'' = acme
   \<and> (\<forall>c. clients_get acme_clients ''xyz'' \<noteq> Client_obj c)"
proof -
  have beta: "lacks_credentials broken_runtime ''beta''"
    by (simp add: lacks_credentials_def secret_var_def upper_beta broken_runtime_def falsy_def)
  have acme_ok: "\<not> lacks_credentials broken_runtime ''acme''"
    by (simp add: lacks_credentials_def id_var_def secret_var_def upper_acme broken_runtime_def
        falsy_def)
  have "\<exists>nm \<in> set (client_list broken_runtime). lacks_credentials broken_runtime nm"
    using beta by (simp add: client_list_broken)
  with loadClients_configuration [of broken_runtime]
  obtain e where e: "loadClients broken_runtime = Inl e"
    by blast
  with loadClients_configuration [of broken_runtime]
  obtain pre nm post where d: "client_list broken_runtime = pre @ nm # post"
    and ok: "\<forall>n \<in> set pre. \<not> lacks_credentials broken_runtime n"
    and bad: "lacks_credentials broken_runtime nm"
    and msg: "e = ConfigurationError (''Missing credentials for client '' @ nm)"
    by blast
  from d have "(pre = [] \<and> nm = ''acme'') \<or> (pre = [''acme''] \<and> nm = ''beta'')"
    by (auto simp: client_list_broken append_eq_Cons_conv Cons_eq_append_conv)
  with bad acme_ok have "nm = ''beta''" by auto
  with e msg have x: "loadClients broken_runtime
      = Inl (ConfigurationError ''Missing credentials for client beta'')"
    by simp
  have h: "holders acme_runtime ''abc'' = [''acme'']"
    by (simp add: holders_def client_list_def acme_runtime_def or_default_def comma_list_def
        ascii_trim_def is_space_def id_var_def upper_acme)
  have h': "holders acme_runtime ''xyz'' = []"
    by (simp add: holders_def client_list_def acme_runtime_def or_default_def comma_list_def
        ascii_trim_def is_space_def id_var_def upper_acme)
  from loadClients_configuration [of acme_runtime] loadClients_acme
  have r: "\<forall>k c. clients_get acme_clients k = Client_obj c \<longleftrightarrow>
             holders acme_runtime k \<noteq> [] \<and> c = client_record acme_runtime (last (holders acme_runtime k))"
    by blast
  from r h have y: "clients_get acme_clients ''abc'' = Client_obj (client_record acme_runtime ''acme'')"
    by simp
  from r h' have z: "\<forall>c. clients_get acme_clients ''xyz'' \<noteq> Client_obj c"
    by simp
  have w: "client_record acme_runtime ''acme'' = acme"
    by (simp add: client_record_def acme_runtime_def secret_var_def upper_acme acme_def
        ASSETS_ROOT_def or_default_def)
  from x y z w loadClients_acme client_list_broken show ?thesis by simp
qed

section \<open>Properties of the asset index\<close>

lemma strip_ext_no_dot: "CHR ''.'' \<notin> set s \<Longrightarrow> strip_ext s = s"
  by (induction s) auto

lemma strip_ext_last_dot:
  "CHR ''.'' \<notin> set ext \<Longrightarrow>
     strip_ext (pre @ CHR ''.'' # ext) =
       (if ext \<noteq> [] \<and> CHR ''/'' \<notin> set ext then pre else pre @ CHR ''.'' # ext)"
proof (induction pre)
  case Nil
  then show ?case by (auto simp: list_all_iff strip_ext_no_dot)
next
  case (Cons c pre)
  then show ?case by (simp add: list_all_iff)
qed

lemma takeWhile_absent:
  "c \<notin> set xs \<Longrightarrow> takeWhile (\<lambda>x. x \<noteq> c) (xs @ ys) = xs @ takeWhile (\<lambda>x. x \<noteq> c) ys"
  by (induction xs) auto

lemma takeWhile_stop: "c \<notin> set xs \<Longrightarrow> takeWhile (\<lambda>x. x \<noteq> c) (xs @ c # ys) = xs"
  by (induction xs) auto

lemma final_segment_no_slash:
  "CHR ''/'' \<notin> set suf \<Longrightarrow> final_segment (pre @ suf) = final_segment pre @ suf"
  using takeWhile_absent [of "CHR ''/''" "rev suf" "rev pre"] by (simp add: final_segment_def)

lemma final_segment_slash:
  "CHR ''/'' \<notin> set suf \<Longrightarrow> final_segment (pre @ CHR ''/'' # suf) = suf"
  using takeWhile_stop [of "CHR ''/''" "rev suf" "rev pre"] by (simp add: final_segment_def)

lemma extension_last_dot:
  "CHR ''.'' \<notin> set ext \<Longrightarrow> extension (pre @ CHR ''.'' # ext) = ext"
  using takeWhile_stop [of "CHR ''.''" "rev ext" "rev pre"] by (simp add: extension_def)

lemma strip_ext_refines: "strip_ext p = strip_final_extension p"
proof (cases "CHR ''.'' \<in> set p")
  case False
  then have "CHR ''.'' \<notin> set (final_segment p)"
    by (auto simp: final_segment_def dest: set_takeWhileD)
  with False show ?thesis
    by (simp add: strip_final_extension_def strip_ext_no_dot)
next
  case True
  then obtain pre ext where p: "p = pre @ CHR ''.'' # ext" and nodot: "CHR ''.'' \<notin> set ext"
    by (auto dest: split_list_last)
  show ?thesis
  proof (cases "CHR ''/'' \<in> set ext")
    case True
    then obtain a b where ext: "ext = a @ CHR ''/'' # b" and b: "CHR ''/'' \<notin> set b"
      by (auto dest: split_list_last)
    have "final_segment p = b"
      using final_segment_slash [OF b, of "pre @ CHR ''.'' # a"] by (simp add: p ext)
    moreover have "CHR ''.'' \<notin> set b"
      using nodot ext by simp
    ultimately have "strip_final_extension p = p"
      by (simp add: strip_final_extension_def)
    moreover have "strip_ext p = p"
      using True by (simp add: p strip_ext_last_dot [OF nodot])
    ultimately show ?thesis by simp
  next
    case False
    have seg: "final_segment p = final_segment pre @ CHR ''.'' # ext"
      using final_segment_no_slash [of "CHR ''.'' # ext" pre] False by (simp add: p)
    have ext: "extension (final_segment p) = ext"
      using extension_last_dot [OF nodot] seg by simp
    have "strip_final_extension p = (if ext \<noteq> [] then pre else p)"
      using ext seg by (simp add: strip_final_extension_def p)
    moreover have "strip_ext p = (if ext \<noteq> [] then pre else p)"
      using False by (simp add: p strip_ext_last_dot [OF nodot])
    ultimately show ?thesis by simp
  qed
qed

lemma relativeKey_entry_key: "relativeKey sp segs = entry_key sp segs"
  by (simp add: relativeKey_def entry_key_def strip_ext_refines)

lemma asset_url_entry_url: "asset_url sp req cn segs = entry_url sp req cn segs"
  by (simp add: asset_url_def entry_url_def baseUrl_def)

lemma walk_result:
  "walk sp req cn cur es result =
     (if readable es
      then Inr (fold (\<lambda>segs. result_set (entry_key sp segs) (entry_url sp req cn segs))
                  (leaves cur es) result)
      else Inl EACCES)"
  by (induction sp req cn cur es result rule: walk.induct)
     (auto simp: relativeKey_entry_key asset_url_entry_url)

lemma replace_backslashes_append:
  "replace_backslashes (a @ b) = replace_backslashes a @ replace_backslashes b"
  by (simp add: replace_backslashes_def)

lemma replace_backslashes_id: "backslash \<notin> set s \<Longrightarrow> replace_backslashes s = s"
  by (induction s) (auto simp: replace_backslashes_def)

lemma join_slashes:
  "sp = CHR ''/'' \<or> sp = backslash \<Longrightarrow> \<forall>nm \<in> set segs. backslash \<notin> set nm \<Longrightarrow>
     replace_backslashes (join_with sp segs) = join_with (CHR ''/'') segs"
proof (induction sp segs rule: join_with.induct)
  case (3 sp x y ys)
  then have "replace_backslashes (join_with sp (y # ys)) = join_with (CHR ''/'') (y # ys)"
    by simp
  moreover have "replace_backslashes [sp] = ''/''"
    using "3.prems"(1) by (auto simp: replace_backslashes_def backslash_def)
  moreover have "replace_backslashes x = x"
    using "3.prems"(2) by (simp add: replace_backslashes_id)
  ultimately show ?case
    using replace_backslashes_append [of x "sp # join_with sp (y # ys)"]
          replace_backslashes_append [of "[sp]" "join_with sp (y # ys)"]
    by simp
qed (simp_all add: replace_backslashes_id)




text \<open>
  What the builder computes for a directory in general: when every subdirectory can be
  listed, one assignment \<open>result[key] = value\<close> per entry that is not a directory, in
  the order of the walk, starting from the empty object; otherwise the failure of the
  listing. For plain names on POSIX and on Windows, key and value are those that C2
  states.
\<close>

lemma buildAssetIndex_assignments:
  assumes "disk dirPath = Some (Dir es)"
  shows "(readable es \<longrightarrow>
            buildAssetIndex disk sp req cn dirPath =
              Inr (fold (\<lambda>segs. result_set (entry_key sp segs) (entry_url sp req cn segs))
                     (leaves [] es) []))
       \<and> (\<not> readable es \<longrightarrow> buildAssetIndex disk sp req cn dirPath = Inl EACCES)
       \<and> (\<forall>segs. (sp = CHR ''/'' \<or> sp = backslash) \<and> (\<forall>nm \<in> set segs. backslash \<notin> set nm) \<longrightarrow>
              entry_key sp segs = claimed_key segs
              \<and> entry_url sp req cn segs = claimed_url req cn segs)"
  using assms
  by (auto simp: buildAssetIndex_def walk_result entry_key_def claimed_key_def
      entry_url_def claimed_url_def join_slashes)

lemma authed_baseUrl: "protocol authed_request = ''http'' \<and> headers authed_request ''host'' = Some ''host''"
  by (simp add: authed_request_def api_request_def acme_headers_def)

lemma not_index:
  "array_index ''sub/dir/img'' = None" "array_index ''a.b'' = None"
  "array_index ''README'' = None" "array_index [] = None" "array_index ''a/b'' = None"
  by (simp_all add: array_index_def is_digit_def)

lemma tree_keys:
  "entry_key (CHR ''/'') [''sub'', ''dir'', ''img.png''] = ''sub/dir/img''"
  "entry_key (CHR ''/'') [''a.b.txt''] = ''a.b''"
  "entry_key (CHR ''/'') [''README''] = ''README''"
  "entry_key (CHR ''/'') [''.gitignore''] = []"
  by (simp_all add: entry_key_def replace_backslashes_def backslash_def
      strip_final_extension_def final_segment_def extension_def)

lemma tree_urls:
  "entry_url (CHR ''/'') authed_request ''acme'' [''sub'', ''dir'', ''img.png'']
     = ''http://host/assets/acme/sub/dir/img.png''"
  "entry_url (CHR ''/'') authed_request ''acme'' [''a.b.txt''] = ''http://host/assets/acme/a.b.txt''"
  "entry_url (CHR ''/'') authed_request ''acme'' [''README''] = ''http://host/assets/acme/README''"
  "entry_url (CHR ''/'') authed_request ''acme'' [''.gitignore'']
     = ''http://host/assets/acme/.gitignore''"
  by (simp_all add: entry_url_def replace_backslashes_def backslash_def authed_baseUrl)

lemma tree_index:
  "buildAssetIndex tree_disk (CHR ''/'') authed_request ''acme'' ''/srv/assets/acme''
     = Inr [(''sub/dir/img'', ''http://host/assets/acme/sub/dir/img.png''),
            (''a.b'', ''http://host/assets/acme/a.b.txt''),
            (''README'', ''http://host/assets/acme/README''),
            ([], ''http://host/assets/acme/.gitignore'')]
   \<and> claimed_key [''sub'', ''dir'', ''img.png''] = ''sub/dir/img''
   \<and> buildAssetIndex locked_disk (CHR ''/'') authed_request ''acme'' ''/srv/assets/acme''
       = Inl EACCES"
proof -
  have d: "tree_disk ''/srv/assets/acme'' =
      Some (Dir [(''sub'', Dir [(''dir'', Dir [(''img.png'', File ''PNG-bytes'')])]),
             (''a.b.txt'', File ''text''),
             (''README'', File ''read me''),
             (''.gitignore'', File ''*.tmp'')])"
    by (simp add: tree_disk_def)
  have l: "locked_disk ''/srv/assets/acme'' =
      Some (Dir [(''logo.png'', File ''PNG-bytes''), (''private'', Unreadable)])"
    by (simp add: locked_disk_def)
  have n: "\<forall>nm \<in> set [''sub'', ''dir'', ''img.png'']. backslash \<notin> set nm"
    by (simp add: backslash_def)
  from buildAssetIndex_assignments [where disk = tree_disk and dirPath = "''/srv/assets/acme''" and sp = "CHR ''/''"
      and req = authed_request and cn = "''acme''", OF d] n
  have k: "claimed_key [''sub'', ''dir'', ''img.png''] = entry_key (CHR ''/'') [''sub'', ''dir'', ''img.png'']"
    by simp
  from buildAssetIndex_assignments [where disk = tree_disk and dirPath = "''/srv/assets/acme''" and sp = "CHR ''/''"
      and req = authed_request and cn = "''acme''", OF d]
  have a: "buildAssetIndex tree_disk (CHR ''/'') authed_request ''acme'' ''/srv/assets/acme''
     = Inr [(''sub/dir/img'', ''http://host/assets/acme/sub/dir/img.png''),
            (''a.b'', ''http://host/assets/acme/a.b.txt''),
            (''README'', ''http://host/assets/acme/README''),
            ([], ''http://host/assets/acme/.gitignore'')]"
    by (simp add: tree_keys tree_urls result_set_def prop_set_def not_index)
  from buildAssetIndex_assignments [where disk = locked_disk and dirPath = "''/srv/assets/acme''" and sp = "CHR ''/''"
      and req = authed_request and cn = "''acme''", OF l]
  have b: "buildAssetIndex locked_disk (CHR ''/'') authed_request ''acme'' ''/srv/assets/acme''
       = Inl EACCES"
    by simp
  from a b k show ?thesis by (simp add: tree_keys)
qed

lemma backslash_key: "relativeKey (CHR ''/'') [backslash_name] = ''a/b''"
  by (simp add: relativeKey_def backslash_name_def replace_backslashes_def backslash_def)

lemma backslash_url:
  "asset_url (CHR ''/'') authed_request ''acme'' [backslash_name] = ''http://host/assets/acme/a/b.txt''"
  by (simp add: asset_url_def baseUrl_def authed_baseUrl backslash_name_def replace_backslashes_def backslash_def)

lemma proto_key: "relativeKey (CHR ''/'') [''__proto__.png''] = ''__proto__''"
  by (simp add: relativeKey_def replace_backslashes_def backslash_def)

text \<open>
  C2. For every regular file reached by the walk the builder is to add exactly one
  entry, whose key is the relative path with the separators of the platform replaced by
  slashes and the final extension stripped, and whose value is the URL ending in that
  relative path. At two inputs it does not. On POSIX, where the separator is the slash,
  a file named \<open>a\b.txt\<close> has the relative path \<open>a\b.txt\<close>, so its key is to be
  \<open>a\b\<close>; the builder replaces the backslash and stores the key \<open>a/b\<close> with a
  value ending in \<open>a/b.txt\<close>, a path that names no file. A file named
  \<open>__proto__.png\<close> is reached by the walk and gets no entry at all: its key is
  \<open>__proto__\<close>, and the assignment to that key of a plain object stores nothing.
\<close>

theorem index_entries_failing_inputs:
  "buildAssetIndex backslash_disk (CHR ''/'') authed_request ''acme'' ''/srv/assets/acme''
     = Inr [(''a/b'', ''http://host/assets/acme/a/b.txt'')]
   \<and> claimed_key [backslash_name] = ''a'' @ [backslash] @ ''b''
   \<and> claimed_key [backslash_name] \<noteq> ''a/b''
   \<and> claimed_url authed_request ''acme'' [backslash_name] \<noteq> ''http://host/assets/acme/a/b.txt''
   \<and> leaves [] [(''__proto__.png'', File ''PNG-bytes'')] = [[''__proto__.png'']]
   \<and> buildAssetIndex proto_disk (CHR ''/'') authed_request ''acme'' ''/srv/assets/acme'' = Inr []"
proof -
  have a: "buildAssetIndex backslash_disk (CHR ''/'') authed_request ''acme'' ''/srv/assets/acme''
     = Inr [(''a/b'', ''http://host/assets/acme/a/b.txt'')]"
    by (simp add: buildAssetIndex_def backslash_disk_def backslash_key backslash_url
        result_set_def prop_set_def not_index)
  have b: "claimed_key [backslash_name] = ''a'' @ [backslash] @ ''b''"
    by (simp add: claimed_key_def backslash_name_def backslash_def
        strip_final_extension_def final_segment_def extension_def)
  have c: "claimed_key [backslash_name] \<noteq> ''a/b''"
    by (simp add: b) (simp add: backslash_def)
  have d: "claimed_url authed_request ''acme'' [backslash_name] \<noteq> ''http://host/assets/acme/a/b.txt''"
    by (simp add: claimed_url_def authed_baseUrl backslash_name_def backslash_def)
  have e: "buildAssetIndex proto_disk (CHR ''/'') authed_request ''acme'' ''/srv/assets/acme'' = Inr []"
    by (simp add: buildAssetIndex_def proto_disk_def proto_key result_set_def)
  from a b c d e show ?thesis by simp
qed

section \<open>The round trip from the index to the static route\<close>
































end
